theory Spec2Isabelle
  imports Complex_Main "HOL-Library.Word" "HOL-Library.Log_Nat"
begin

section \<open>JavaScript values, as the validator observes them\<close>

text \<open>
  The module is one class of static methods over untyped arguments (\<open>@param {any} uid\<close>).
  Its behaviour depends on \<open>typeof\<close>, on \<open>===\<close>, on \<open>parseInt(_, 10)\<close>, on
  \<open>String.prototype.trim\<close>, on numeric comparison, and, in \<open>validateConfiguration\<close>, on
  property reads, on object spread and on template literals. This section embeds exactly that
  much of ECMAScript.

  Diagnostic logging (\<open>console.warn\<close>, \<open>console.error\<close>, \<open>console.log\<close>) returns no value
  that the module reads and is left out; the methods are taken to be called on the class, so
  \<open>this.DEFAULT_BOT_UID\<close> is the static field.
\<close>

subsection \<open>Numbers\<close>

text \<open>
  A JavaScript number is an IEEE double. The finite ones are rationals, so \<open>Fin q\<close> with
  \<open>q\<close> any rational covers every finite double (and more); \<open>NaN\<close> and the two infinities
  are values of their own. The two zeros are one value here: \<open>===\<close>, \<open>>=\<close>, \<open><=\<close> and
  \<open>isNaN\<close>, the only operations the module applies to a number, do not tell them apart.
  An integer \<open>u\<close> is \<open>Fin (of_int u)\<close>.
\<close>

datatype jsnumber = Fin rat | NaN | PosInfinity | NegInfinity

definition isNaN :: "jsnumber \<Rightarrow> bool" where
  "isNaN x = (x = NaN)"

text \<open>\<open>x <= y\<close> on numbers: false as soon as one side is \<open>NaN\<close>.\<close>

fun lessEq :: "jsnumber \<Rightarrow> jsnumber \<Rightarrow> bool" where
  "lessEq NaN _ = False"
| "lessEq _ NaN = False"
| "lessEq NegInfinity _ = True"
| "lessEq _ PosInfinity = True"
| "lessEq (Fin a) (Fin b) = (a \<le> b)"
| "lessEq _ _ = False"

text \<open>\<open>x >= y\<close> is \<open>y <= x\<close> on numbers.\<close>

definition greaterEq :: "jsnumber \<Rightarrow> jsnumber \<Rightarrow> bool" where
  "greaterEq x y = lessEq y x"

text \<open>
  The number value of a mathematical integer: the nearest double, ties to the even
  significand, and an infinity from \<open>2 ^ 1024\<close> on. Integers below \<open>2 ^ 53\<close> in magnitude
  are doubles themselves.
\<close>

definition roundToDouble :: "int \<Rightarrow> jsnumber" where
  "roundToDouble n =
     (let a = \<bar>n\<bar> in
      if a < 2 ^ 53 then Fin (of_int n)
      else
        let e = nat (bitlen a) - 53;
            q = a div 2 ^ e;
            r = a mod 2 ^ e;
            half = 2 ^ (e - 1);
            q' = (if half < r \<or> (r = half \<and> odd q) then q + 1 else q);
            v = q' * 2 ^ e
        in if 2 ^ 1024 \<le> v then (if n < 0 then NegInfinity else PosInfinity)
           else Fin (of_int (if n < 0 then - v else v)))"

subsection \<open>Strings\<close>

text \<open>
  A JavaScript string is a sequence of UTF-16 code units; \<open>length\<close> counts code units.
  \<open>ascii\<close> writes an ASCII literal as such a sequence.
\<close>

type_synonym jsstring = "16 word list"

definition ascii :: "string \<Rightarrow> jsstring" where
  "ascii cs = map of_char cs"

text \<open>
  \<open>WhiteSpace\<close> and \<open>LineTerminator\<close> of ECMAScript: TAB, LF, VT, FF, CR, SP, NBSP, the
  Unicode space separators (U+1680, U+2000 to U+200A, U+202F, U+205F, U+3000), LS, PS and
  the byte order mark. Both \<open>trim\<close> and \<open>parseInt\<close> strip exactly these.
\<close>

definition isWhiteSpace :: "16 word \<Rightarrow> bool" where
  "isWhiteSpace c =
     (c \<in> {0x9, 0xA, 0xB, 0xC, 0xD, 0x20, 0xA0, 0x1680, 0x2028, 0x2029, 0x202F, 0x205F,
            0x3000, 0xFEFF}
      \<or> (0x2000 \<le> c \<and> c \<le> 0x200A))"

text \<open>\<open>String.prototype.trim\<close>: white space removed at both ends.\<close>

definition trim :: "jsstring \<Rightarrow> jsstring" where
  "trim s = rev (dropWhile isWhiteSpace (rev (dropWhile isWhiteSpace s)))"

definition isDigit :: "16 word \<Rightarrow> bool" where
  "isDigit c = (0x30 \<le> c \<and> c \<le> 0x39)"

fun digitsValue :: "int \<Rightarrow> jsstring \<Rightarrow> int" where
  "digitsValue acc [] = acc"
| "digitsValue acc (c # cs) = digitsValue (acc * 10 + (uint c - 48)) cs"

text \<open>
  \<open>parseInt(string, 10)\<close> on a string: leading white space is skipped, one sign is read,
  the longest run of decimal digits that follows is the numeral, and whatever comes after
  it is ignored; no digit at all gives \<open>NaN\<close>. With radix 10 no \<open>0x\<close> prefix is
  recognised. ECMAScript lets an implementation replace the digits after the twentieth by
  zeros; the numeral is read exactly here.
\<close>

definition parseInt :: "jsstring \<Rightarrow> jsnumber" where
  "parseInt string =
     (let S = dropWhile isWhiteSpace string;
          negative = (case S of [] \<Rightarrow> False | c # _ \<Rightarrow> c = 0x2D);
          S' = (case S of [] \<Rightarrow> S | c # cs \<Rightarrow> if c = 0x2B \<or> c = 0x2D then cs else S);
          Z = takeWhile isDigit S'
      in if Z = [] then NaN
         else roundToDouble (if negative then - digitsValue 0 Z else digitsValue 0 Z))"

text \<open>The decimal numeral of an integer: the string form of a BigInt and of an array index.\<close>

fun decimalNat :: "nat \<Rightarrow> jsstring" where
  "decimalNat n =
     (if n < 10 then [of_nat n + 0x30] else decimalNat (n div 10) @ [of_nat (n mod 10) + 0x30])"

declare decimalNat.simps [simp del]

definition decimal :: "int \<Rightarrow> jsstring" where
  "decimal i = (if i < 0 then 0x2D # decimalNat (nat (- i)) else decimalNat (nat i))"

subsection \<open>Values, objects and abrupt completions\<close>

text \<open>
  An object is a reference into a heap. \<open>JFunction\<close> is a reference to a callable object:
  \<open>typeof\<close> tells the two apart and nothing else in the module does.
\<close>

type_synonym addr = nat

datatype jsvalue =
    JUndefined
  | JNull
  | JBoolean bool
  | JNumber jsnumber
  | JString jsstring
  | JBigInt int
  | JSymbol nat
  | JObject addr
  | JFunction addr

datatype jstype =
  TUndefined | TObject | TBoolean | TNumber | TString | TBigInt | TSymbol | TFunction

fun typeof :: "jsvalue \<Rightarrow> jstype" where
  "typeof JUndefined = TUndefined"
| "typeof JNull = TObject"
| "typeof (JBoolean _) = TBoolean"
| "typeof (JNumber _) = TNumber"
| "typeof (JString _) = TString"
| "typeof (JBigInt _) = TBigInt"
| "typeof (JSymbol _) = TSymbol"
| "typeof (JObject _) = TObject"
| "typeof (JFunction _) = TFunction"

text \<open>
  \<open>x === y\<close>: numbers by value with \<open>NaN\<close> unequal to itself, strings by their code units,
  objects by reference, everything else by value; values of different types are unequal.
\<close>

fun strictEquals :: "jsvalue \<Rightarrow> jsvalue \<Rightarrow> bool" where
  "strictEquals (JNumber x) (JNumber y) = (x = y \<and> \<not> isNaN x)"
| "strictEquals x y = (x = y)"

text \<open>
  What is thrown: a \<open>TypeError\<close> that the engine creates (kept by its cause, since the
  wording of its message is the engine's), or whatever value user code throws from a
  getter or from a \<open>toString\<close>/\<open>valueOf\<close> method.
\<close>

datatype typeErrorCause =
    SymbolToString
  | InOperatorOnNonObject
  | PropertyOfNullish

datatype thrown = TypeError typeErrorCause | UserThrown jsvalue

type_synonym 'a completion = "thrown + 'a"

text \<open>
  An object, by what the module can observe of it:
  \<^item> its own enumerable string-keyed properties, in order, each with the completion of
    reading it (\<open>Inr v\<close> for a data property holding \<open>v\<close> or a getter returning \<open>v\<close>,
    \<open>Inl e\<close> for a getter that throws \<open>e\<close>);
  \<^item> the completion of converting it to a string (\<open>ToPrimitive\<close> with hint string, then
    \<open>ToString\<close>), which runs the object's \<open>toString\<close>/\<open>valueOf\<close>.
  A read is taken to give the same completion each time. Properties that are inherited or
  not enumerable are not part of the model; the built-in prototypes define neither
  \<open>botUid\<close> nor \<open>uid\<close>.
\<close>

record jsobject =
  properties :: "(jsstring \<times> jsvalue completion) list"
  toStringResult :: "jsstring completion"

record heap =
  objects :: "addr \<Rightarrow> jsobject"
  nextAddr :: addr

section \<open>WebUIDValidator\<close>

text \<open>\<open>static DEFAULT_BOT_UID = 12345\<close> and its accessor (lines 10 and 115 to 117).\<close>

definition DEFAULT_BOT_UID :: jsnumber where
  "DEFAULT_BOT_UID = Fin 12345"

definition getDefaultBotUID :: jsnumber where
  "getDefaultBotUID = DEFAULT_BOT_UID"

subsection \<open>isBotUser (lines 19 to 44)\<close>

text \<open>
  The body of the outer \<open>try\<close>. \<open>typeof uid === "number"\<close> holds of the values \<open>JNumber n\<close>
  and of no other, \<open>typeof uid === "string"\<close> of the values \<open>JString s\<close> and of no other, so
  the two tests are the first two cases. The inner \<open>try\<close> around \<open>parseInt\<close> guards a call
  that, on a string, cannot throw.
\<close>

definition isBotUser_try :: "jsvalue \<Rightarrow> bool completion" where
  "isBotUser_try uid =
     (case uid of
        JNumber n \<Rightarrow> Inr (strictEquals uid (JNumber DEFAULT_BOT_UID))
      | JString s \<Rightarrow>
          (let uidInt = parseInt s
           in Inr (\<not> isNaN uidInt \<and> strictEquals (JNumber uidInt) (JNumber DEFAULT_BOT_UID)))
      | _ \<Rightarrow> Inr False)"

definition isBotUser :: "jsvalue \<Rightarrow> bool" where
  "isBotUser uid = (case isBotUser_try uid of Inl error \<Rightarrow> False | Inr b \<Rightarrow> b)"

subsection \<open>isValidWebSDKUID (lines 53 to 77)\<close>

definition isValidWebSDKUID_try :: "jsvalue \<Rightarrow> bool completion" where
  "isValidWebSDKUID_try uid =
     (if typeof uid \<noteq> TNumber \<and> typeof uid \<noteq> TString then Inr False
      else
        case uid of
          JString s \<Rightarrow> Inr (0 < length s \<and> 0 < length (trim s))
        | JNumber n \<Rightarrow> Inr (greaterEq n (Fin 1) \<and> lessEq n (Fin (2 ^ 32 - 1)))
        | _ \<Rightarrow> Inr False)"

definition isValidWebSDKUID :: "jsvalue \<Rightarrow> bool" where
  "isValidWebSDKUID uid = (case isValidWebSDKUID_try uid of Inl error \<Rightarrow> False | Inr b \<Rightarrow> b)"

subsection \<open>compareUIDs (lines 87 to 108)\<close>

text \<open>
  \<open>typeof uid === "number" ? uid : parseInt(uid, 10)\<close> (lines 95 and 96). \<open>parseInt\<close>
  first converts its argument to a string: \<open>undefined\<close>, \<open>null\<close> and the booleans to their
  names, a BigInt to its decimal numeral, an object by its own conversion, which may throw;
  a symbol cannot be converted. A number never reaches \<open>parseInt\<close>.
\<close>

fun numericValue :: "heap \<Rightarrow> jsvalue \<Rightarrow> jsnumber completion" where
  "numericValue h (JNumber n) = Inr n"
| "numericValue h (JString s) = Inr (parseInt s)"
| "numericValue h JUndefined = Inr (parseInt (ascii ''undefined''))"
| "numericValue h JNull = Inr (parseInt (ascii ''null''))"
| "numericValue h (JBoolean b) = Inr (parseInt (ascii (if b then ''true'' else ''false'')))"
| "numericValue h (JBigInt i) = Inr (parseInt (decimal i))"
| "numericValue h (JSymbol _) = Inl (TypeError SymbolToString)"
| "numericValue h (JObject a) =
     (case toStringResult (objects h a) of Inl e \<Rightarrow> Inl e | Inr s \<Rightarrow> Inr (parseInt s))"
| "numericValue h (JFunction a) =
     (case toStringResult (objects h a) of Inl e \<Rightarrow> Inl e | Inr s \<Rightarrow> Inr (parseInt s))"

definition compareUIDs_try :: "heap \<Rightarrow> jsvalue \<Rightarrow> jsvalue \<Rightarrow> bool completion" where
  "compareUIDs_try h uid1 uid2 =
     (if typeof uid1 = typeof uid2 then Inr (strictEquals uid1 uid2)
      else
        case numericValue h uid1 of
          Inl e \<Rightarrow> Inl e
        | Inr num1 \<Rightarrow>
            (case numericValue h uid2 of
               Inl e \<Rightarrow> Inl e
             | Inr num2 \<Rightarrow>
                 if isNaN num1 \<or> isNaN num2 then Inr False
                 else Inr (strictEquals (JNumber num1) (JNumber num2))))"

definition compareUIDs :: "heap \<Rightarrow> jsvalue \<Rightarrow> jsvalue \<Rightarrow> bool" where
  "compareUIDs h uid1 uid2 =
     (case compareUIDs_try h uid1 uid2 of Inl error \<Rightarrow> False | Inr b \<Rightarrow> b)"

subsection \<open>validateConfiguration (lines 125 to 162)\<close>

text \<open>
  The strings pushed to \<open>errors\<close> and \<open>warnings\<close> are template literals. Each is kept by
  its template and the values in its holes: the text of the holes is the values' string
  form, and formatting a number as a string is not part of the model.
  \<^item> \<open>InvalidBotUid v\<close>: line 137, \<open>${config.botUid}\<close> is \<open>v\<close>;
  \<^item> \<open>UnexpectedBotUid v d\<close>: line 143, \<open>${config.botUid}\<close> is \<open>v\<close> and
    \<open>${this.DEFAULT_BOT_UID}\<close> is \<open>d\<close>;
  \<^item> \<open>InvalidUid v\<close>: line 152, \<open>${config.uid}\<close> is \<open>v\<close>;
  \<^item> \<open>ValidationException e\<close>: line 157, \<open>${error.message}\<close> is read from the caught \<open>e\<close>.
\<close>

datatype message =
    InvalidBotUid jsvalue
  | UnexpectedBotUid jsvalue jsnumber
  | InvalidUid jsvalue
  | ValidationException thrown

record validationResult =
  isValid :: bool
  errors :: "message list"
  warnings :: "message list"
  config :: jsvalue

text \<open>
  A template literal converts the value in a hole to a string. For a symbol that is a
  \<open>TypeError\<close>; for an object it is the object's own conversion; every other value has a
  string form. \<open>Some e\<close>: the conversion throws \<open>e\<close>.
\<close>

fun toStringThrows :: "heap \<Rightarrow> jsvalue \<Rightarrow> thrown option" where
  "toStringThrows h (JSymbol _) = Some (TypeError SymbolToString)"
| "toStringThrows h (JObject a) =
     (case toStringResult (objects h a) of Inl e \<Rightarrow> Some e | Inr _ \<Rightarrow> None)"
| "toStringThrows h (JFunction a) =
     (case toStringResult (objects h a) of Inl e \<Rightarrow> Some e | Inr _ \<Rightarrow> None)"
| "toStringThrows h _ = None"

text \<open>\<open>key in conf\<close>: a \<open>TypeError\<close> unless \<open>conf\<close> is an object.\<close>

fun hasProperty :: "heap \<Rightarrow> jsstring \<Rightarrow> jsvalue \<Rightarrow> bool completion" where
  "hasProperty h key (JObject a) = Inr (map_of (properties (objects h a)) key \<noteq> None)"
| "hasProperty h key (JFunction a) = Inr (map_of (properties (objects h a)) key \<noteq> None)"
| "hasProperty h key _ = Inl (TypeError InOperatorOnNonObject)"

text \<open>
  \<open>conf.key\<close>. On \<open>undefined\<close> and \<open>null\<close> it is a \<open>TypeError\<close>; on any other primitive
  the names read here (\<open>botUid\<close>, \<open>uid\<close>, \<open>message\<close>) are not defined.
\<close>

fun getProperty :: "heap \<Rightarrow> jsvalue \<Rightarrow> jsstring \<Rightarrow> jsvalue completion" where
  "getProperty h (JObject a) key =
     (case map_of (properties (objects h a)) key of None \<Rightarrow> Inr JUndefined | Some c \<Rightarrow> c)"
| "getProperty h (JFunction a) key =
     (case map_of (properties (objects h a)) key of None \<Rightarrow> Inr JUndefined | Some c \<Rightarrow> c)"
| "getProperty h JUndefined key = Inl (TypeError PropertyOfNullish)"
| "getProperty h JNull key = Inl (TypeError PropertyOfNullish)"
| "getProperty h _ key = Inr JUndefined"

text \<open>
  \<open>{ ...conf }\<close> (line 130): a new object that receives every own enumerable property of
  \<open>conf\<close>, each read through its getter if it has one. \<open>undefined\<close>, \<open>null\<close> and the
  primitives other than strings contribute nothing; a string contributes its code units
  under their indices.
\<close>

fun ownEnumerable :: "heap \<Rightarrow> jsvalue \<Rightarrow> (jsstring \<times> jsvalue completion) list" where
  "ownEnumerable h (JObject a) = properties (objects h a)"
| "ownEnumerable h (JFunction a) = properties (objects h a)"
| "ownEnumerable h (JString s) =
     map (\<lambda>i. (decimalNat i, Inr (JString [s ! i]))) [0..<length s]"
| "ownEnumerable h _ = []"

fun readAll :: "(jsstring \<times> jsvalue completion) list \<Rightarrow> (jsstring \<times> jsvalue) list completion" where
  "readAll [] = Inr []"
| "readAll ((k, c) # ps) =
     (case c of
        Inl e \<Rightarrow> Inl e
      | Inr v \<Rightarrow> (case readAll ps of Inl e \<Rightarrow> Inl e | Inr kvs \<Rightarrow> Inr ((k, v) # kvs)))"

text \<open>
  Allocation of a plain object with the given data properties at the next free address.
  Its string form is the built-in one; the module never converts the copy to a string.
\<close>

definition newObject :: "heap \<Rightarrow> (jsstring \<times> jsvalue) list \<Rightarrow> jsvalue \<times> heap" where
  "newObject h kvs =
     (JObject (nextAddr h),
      h\<lparr>objects := (objects h)
           (nextAddr h :=
              \<lparr>properties = map (\<lambda>(k, v). (k, Inr v)) kvs,
               toStringResult = Inr (ascii ''[object Object]'')\<rparr>),
        nextAddr := Suc (nextAddr h)\<rparr>)"

definition spread :: "heap \<Rightarrow> jsvalue \<Rightarrow> (jsvalue \<times> heap) completion" where
  "spread h conf =
     (case readAll (ownEnumerable h conf) of
        Inl e \<Rightarrow> Inl e
      | Inr kvs \<Rightarrow> Inr (newObject h kvs))"

text \<open>
  The statements of the \<open>try\<close> block update \<open>result\<close> in place, so what they have written
  is still there when a later statement throws: each returns the result as it stands,
  with \<open>Some e\<close> when it ended by throwing \<open>e\<close>.

  Lines 135 to 147. \<open>config.botUid\<close> is read on lines 136, 141 and 143.
\<close>

definition checkBotUid :: "heap \<Rightarrow> jsvalue \<Rightarrow> validationResult \<Rightarrow> thrown option \<times> validationResult" where
  "checkBotUid h conf result =
     (case hasProperty h (ascii ''botUid'') conf of
        Inl e \<Rightarrow> (Some e, result)
      | Inr present \<Rightarrow>
          if present then
            (case getProperty h conf (ascii ''botUid'') of
               Inl e \<Rightarrow> (Some e, result)
             | Inr v \<Rightarrow>
                 if \<not> isValidWebSDKUID v then
                   (case toStringThrows h v of
                      Some e \<Rightarrow> (Some e, result)
                    | None \<Rightarrow>
                        (None, result\<lparr>errors := errors result @ [InvalidBotUid v],
                                      isValid := False\<rparr>))
                 else if \<not> isBotUser v then
                   (case toStringThrows h v of
                      Some e \<Rightarrow> (Some e, result)
                    | None \<Rightarrow>
                        (None, result\<lparr>warnings := warnings result
                                        @ [UnexpectedBotUid v DEFAULT_BOT_UID]\<rparr>))
                 else (None, result))
          else (None, result))"

text \<open>Lines 150 to 155.\<close>

definition checkUid :: "heap \<Rightarrow> jsvalue \<Rightarrow> validationResult \<Rightarrow> thrown option \<times> validationResult" where
  "checkUid h conf result =
     (case hasProperty h (ascii ''uid'') conf of
        Inl e \<Rightarrow> (Some e, result)
      | Inr present \<Rightarrow>
          if present then
            (case getProperty h conf (ascii ''uid'') of
               Inl e \<Rightarrow> (Some e, result)
             | Inr v \<Rightarrow>
                 if \<not> isValidWebSDKUID v then
                   (case toStringThrows h v of
                      Some e \<Rightarrow> (Some e, result)
                    | None \<Rightarrow>
                        (None, result\<lparr>errors := errors result @ [InvalidUid v],
                                      isValid := False\<rparr>))
                 else (None, result))
          else (None, result))"

definition tryBlock :: "heap \<Rightarrow> jsvalue \<Rightarrow> validationResult \<Rightarrow> thrown option \<times> validationResult" where
  "tryBlock h conf result =
     (case checkBotUid h conf result of
        (Some e, result') \<Rightarrow> (Some e, result')
      | (None, result') \<Rightarrow> checkUid h conf result')"

text \<open>
  Line 157 evaluates \<open>${error.message}\<close> in the \<open>catch\<close> clause: it reads the property
  \<open>message\<close> of what was caught and converts it to a string. A \<open>TypeError\<close> of the engine
  has a message. Of a thrown object, an own enumerable \<open>message\<close> is read as a property
  of the model; any other \<open>message\<close> (that of an \<open>Error\<close> is not enumerable) is taken to
  be read and converted without a throw. \<open>Some e\<close>: the evaluation throws \<open>e\<close>.
\<close>

fun messageThrows :: "heap \<Rightarrow> thrown \<Rightarrow> thrown option" where
  "messageThrows h (TypeError _) = None"
| "messageThrows h (UserThrown v) =
     (case getProperty h v (ascii ''message'') of
        Inl e \<Rightarrow> Some e
      | Inr m \<Rightarrow> toStringThrows h m)"

text \<open>
  The whole method. The object literal of lines 126 to 131, with its spread, is evaluated
  before the \<open>try\<close> of line 133 is entered; the \<open>catch\<close> clause of lines 156 to 159 is not
  itself guarded. The result object and its two arrays are new and owned by the caller;
  they are returned as a record. The copy of the configuration is the one new object that
  the record holds a reference to, so the heap is returned with it.
\<close>

definition validateConfiguration :: "heap \<Rightarrow> jsvalue \<Rightarrow> validationResult completion \<times> heap" where
  "validateConfiguration h conf =
     (case spread h conf of
        Inl e \<Rightarrow> (Inl e, h)
      | Inr (copy, h') \<Rightarrow>
          (case tryBlock h' conf \<lparr>isValid = True, errors = [], warnings = [], config = copy\<rparr> of
             (None, result) \<Rightarrow> (Inr result, h')
           | (Some error, result) \<Rightarrow>
               (case messageThrows h' error of
                  Some e \<Rightarrow> (Inl e, h')
                | None \<Rightarrow>
                    (Inr (result\<lparr>errors := errors result @ [ValidationException error],
                                isValid := False\<rparr>), h'))))"

section \<open>Configurations of plain data, and example heaps\<close>

text \<open>A reference is allocated when it points below the next free address.\<close>

definition allocated :: "heap \<Rightarrow> jsvalue \<Rightarrow> bool" where
  "allocated h v =
     (case v of JObject a \<Rightarrow> a < nextAddr h | JFunction a \<Rightarrow> a < nextAddr h | _ \<Rightarrow> True)"

text \<open>
  A value is convertible when turning it into a string runs no user code that throws:
  every number, string, boolean, BigInt, \<open>undefined\<close> and \<open>null\<close> is, a symbol is (the
  failure is the engine's \<open>TypeError\<close>), and an object is when its own conversion returns.
\<close>

definition convertible :: "heap \<Rightarrow> jsvalue \<Rightarrow> bool" where
  "convertible h v =
     (allocated h v \<and>
      (case toStringThrows h v of
         None \<Rightarrow> True
       | Some e \<Rightarrow> (case e of TypeError _ \<Rightarrow> True | UserThrown _ \<Rightarrow> False)))"


text \<open>Heaps for the examples: the objects of a list, at their indices.\<close>

definition plainObject :: "(jsstring \<times> jsvalue completion) list \<Rightarrow> jsobject" where
  "plainObject ps = \<lparr>properties = ps, toStringResult = Inr (ascii ''[object Object]'')\<rparr>"

definition heapOf :: "jsobject list \<Rightarrow> heap" where
  "heapOf os =
     \<lparr>objects = (\<lambda>a. if a < length os then os ! a else plainObject []),
      nextAddr = length os\<rparr>"

definition noObjects :: heap where
  "noObjects = heapOf []"




text \<open>
  \<open>{ get uid() { throw err } }\<close> at address 0, where \<open>err\<close>, at address 1, is
  \<open>new Error("boom")\<close>: an \<open>Error\<close> has no enumerable property of its own.
\<close>

definition heapThrowingGetter :: heap where
  "heapThrowingGetter =
     heapOf [plainObject [(ascii ''uid'', Inl (UserThrown (JObject 1)))],
             \<lparr>properties = [], toStringResult = Inr (ascii ''Error: boom'')\<rparr>]"

text \<open>
  \<open>{ uid: o }\<close> at address 0, where \<open>o\<close>, at address 1, is
  \<open>{ toString() { throw null } }\<close> and its method is the function at address 2.
\<close>

definition heapThrowsNull :: heap where
  "heapThrowsNull =
     heapOf [plainObject [(ascii ''uid'', Inr (JObject 1))],
             \<lparr>properties = [(ascii ''toString'', Inr (JFunction 2))],
              toStringResult = Inl (UserThrown JNull)\<rparr>,
             \<lparr>properties = [], toStringResult = Inr (ascii ''toString() { throw null }'')\<rparr>]"

section \<open>Facts about the embedding\<close>

subsection \<open>Numbers and strings\<close>

lemma roundToDouble_small: "\<bar>n\<bar> < 2 ^ 53 \<Longrightarrow> roundToDouble n = Fin (of_int n)"
  by (simp add: roundToDouble_def)

lemmas parse_eval = parseInt_def ascii_def isWhiteSpace_def isDigit_def roundToDouble_def

lemma trim_empty: "(trim s = []) = list_all isWhiteSpace s"
proof -
  have "(\<forall>x\<in>set (dropWhile isWhiteSpace s). isWhiteSpace x) = (\<forall>x\<in>set s. isWhiteSpace x)"
  proof
    assume d: "\<forall>x\<in>set (dropWhile isWhiteSpace s). isWhiteSpace x"
    have "set s = set (takeWhile isWhiteSpace s) \<union> set (dropWhile isWhiteSpace s)"
      by (metis set_append takeWhile_dropWhile_id)
    with d show "\<forall>x\<in>set s. isWhiteSpace x"
      by (auto dest: set_takeWhileD)
  next
    assume "\<forall>x\<in>set s. isWhiteSpace x"
    then show "\<forall>x\<in>set (dropWhile isWhiteSpace s). isWhiteSpace x"
      by (auto dest: set_dropWhileD)
  qed
  then show ?thesis
    by (simp add: trim_def dropWhile_eq_Nil_conv list_all_iff)
qed

lemma digit_not_space: "isDigit c \<Longrightarrow> \<not> isWhiteSpace c"
  by (auto simp: isDigit_def isWhiteSpace_def word_le_nat_alt)

lemma digit_not_sign: "isDigit c \<Longrightarrow> c \<noteq> 0x2B \<and> c \<noteq> 0x2D"
  by (auto simp: isDigit_def)

lemma digitsValue_append: "digitsValue acc (xs @ ys) = digitsValue (digitsValue acc xs) ys"
  by (induction xs arbitrary: acc) simp_all

text \<open>
  The lenient parse: a numeral followed by anything that is not a digit parses as the
  numeral alone.
\<close>

lemma parseInt_digits:
  assumes "ds \<noteq> []" "list_all isDigit ds" "rest = [] \<or> \<not> isDigit (hd rest)"
  shows "parseInt (ds @ rest) = roundToDouble (digitsValue 0 ds)"
proof -
  obtain d ds' where ds: "ds = d # ds'" using assms(1) by (cases ds) auto
  have d: "isDigit d" using assms(2) ds by simp
  have tw: "takeWhile isDigit (ds @ rest) = ds"
  proof (cases rest)
    case Nil
    then show ?thesis using assms(2) by (simp add: list_all_iff)
  next
    case (Cons r rs)
    then show ?thesis using assms(2,3) by (simp add: list_all_iff takeWhile_append2)
  qed
  have dw: "dropWhile isWhiteSpace (ds @ rest) = ds @ rest"
    using d ds by (simp add: digit_not_space)
  show ?thesis
    unfolding parseInt_def dw
    using d digit_not_sign[OF d] tw assms(1) ds by (simp add: Let_def)
qed

lemma digit_char:
  assumes d: "d < 10"
  shows "isDigit (of_nat d + 0x30) \<and> uint (of_nat d + 0x30 :: 16 word) = int d + 48"
proof -
  have e: "(of_nat d + 0x30 :: 16 word) = of_nat (d + 48)" by simp
  have u: "unat (of_nat (d + 48) :: 16 word) = d + 48"
    using d by (simp add: unat_of_nat del: of_nat_add)
  show ?thesis
    unfolding e isDigit_def word_le_nat_alt using u d
    by (simp add: uint_nat del: of_nat_add)
qed

lemma decimalNat_digits:
  "decimalNat n \<noteq> [] \<and> list_all isDigit (decimalNat n) \<and> digitsValue 0 (decimalNat n) = int n"
proof (induction n rule: decimalNat.induct)
  case (1 n)
  show ?case
  proof (cases "n < 10")
    case True
    then show ?thesis
      using digit_char[of n] by (subst (1 2 3) decimalNat.simps) simp
  next
    case False
    have m: "n mod 10 < 10" by simp
    from False 1 have ih: "decimalNat (n div 10) \<noteq> []"
      "list_all isDigit (decimalNat (n div 10))"
      "digitsValue 0 (decimalNat (n div 10)) = int (n div 10)" by auto
    show ?thesis
      using False ih digit_char[OF m]
      by (subst (1 2 3) decimalNat.simps) (simp add: digitsValue_append zdiv_int zmod_int)
  qed
qed

text \<open>Parsing the decimal numeral of an integer gives back the integer, as a number.\<close>

lemma parseInt_decimal: "parseInt (decimal i) = roundToDouble i"
proof (cases "i < 0")
  case False
  then show ?thesis
    using parseInt_digits[of "decimalNat (nat i)" "[]"] decimalNat_digits[of "nat i"]
    by (simp add: decimal_def)
next
  case True
  let ?ds = "decimalNat (nat (- i))"
  from decimalNat_digits[of "nat (- i)"] obtain d ds' where ds: "?ds = d # ds'"
    and all: "list_all isDigit ?ds" and v: "digitsValue 0 ?ds = int (nat (- i))"
    by (cases ?ds) auto
  have tw: "takeWhile isDigit ?ds = ?ds" using all by (simp add: list_all_iff)
  have nsp: "\<not> isWhiteSpace (0x2D :: 16 word)" by (simp add: isWhiteSpace_def)
  have "parseInt (0x2D # ?ds) = roundToDouble (- digitsValue 0 ?ds)"
    unfolding parseInt_def using nsp tw ds by (simp add: Let_def)
  then show ?thesis using True v by (simp add: decimal_def)
qed

subsection \<open>The three predicates, by kind of argument\<close>

lemma typeof_number: "(typeof v = TNumber) = (\<exists>n. v = JNumber n)"
  by (cases v) simp_all

lemma typeof_string: "(typeof v = TString) = (\<exists>s. v = JString s)"
  by (cases v) simp_all

lemma isBotUser_number: "isBotUser (JNumber n) = (n = DEFAULT_BOT_UID)"
  by (auto simp: isBotUser_def isBotUser_try_def DEFAULT_BOT_UID_def isNaN_def)

lemma isBotUser_string: "isBotUser (JString s) = (parseInt s = DEFAULT_BOT_UID)"
  by (auto simp: isBotUser_def isBotUser_try_def DEFAULT_BOT_UID_def isNaN_def Let_def)

lemma isBotUser_other:
  "typeof uid \<noteq> TNumber \<Longrightarrow> typeof uid \<noteq> TString \<Longrightarrow> \<not> isBotUser uid"
  by (cases uid) (simp_all add: isBotUser_def isBotUser_try_def)

lemma isValid_number:
  "isValidWebSDKUID (JNumber n) = (greaterEq n (Fin 1) \<and> lessEq n (Fin (2 ^ 32 - 1)))"
  by (simp add: isValidWebSDKUID_def isValidWebSDKUID_try_def)

lemma isValid_fin: "isValidWebSDKUID (JNumber (Fin q)) = (1 \<le> q \<and> q \<le> 2 ^ 32 - 1)"
  by (simp add: isValid_number greaterEq_def)

lemma isValid_string: "isValidWebSDKUID (JString s) = (0 < length s \<and> 0 < length (trim s))"
  by (simp add: isValidWebSDKUID_def isValidWebSDKUID_try_def)

lemma isValid_other:
  "typeof uid \<noteq> TNumber \<Longrightarrow> typeof uid \<noteq> TString \<Longrightarrow> \<not> isValidWebSDKUID uid"
  by (simp add: isValidWebSDKUID_def isValidWebSDKUID_try_def)

lemma isValid_nonfinite:
  "\<not> isValidWebSDKUID (JNumber NaN) \<and> \<not> isValidWebSDKUID (JNumber PosInfinity)
   \<and> \<not> isValidWebSDKUID (JNumber NegInfinity)"
  by (simp add: isValid_number greaterEq_def)

lemma compare_same:
  "typeof uid1 = typeof uid2 \<Longrightarrow> compareUIDs h uid1 uid2 = strictEquals uid1 uid2"
  by (simp add: compareUIDs_def compareUIDs_try_def)

lemma compare_num_str:
  "compareUIDs h (JNumber n) (JString s) = (n \<noteq> NaN \<and> parseInt s \<noteq> NaN \<and> n = parseInt s)"
  by (auto simp: compareUIDs_def compareUIDs_try_def isNaN_def)

lemma compare_str_num:
  "compareUIDs h (JString s) (JNumber n) = (n \<noteq> NaN \<and> parseInt s \<noteq> NaN \<and> parseInt s = n)"
  by (auto simp: compareUIDs_def compareUIDs_try_def isNaN_def)

text \<open>
  The bodies of \<open>isBotUser\<close> and \<open>isValidWebSDKUID\<close> never throw; \<open>compareUIDs\<close> turns a
  throw of its body (a conversion of an object or of a symbol) into \<open>false\<close>.
\<close>

lemma isBotUser_try_returns: "\<exists>b. isBotUser_try uid = Inr b"
  by (cases uid) (auto simp: isBotUser_try_def Let_def)

lemma isValidWebSDKUID_try_returns: "\<exists>b. isValidWebSDKUID_try uid = Inr b"
  by (cases uid) (auto simp: isValidWebSDKUID_try_def)

lemma compareUIDs_catches: "compareUIDs_try h uid1 uid2 = Inl e \<Longrightarrow> \<not> compareUIDs h uid1 uid2"
  by (simp add: compareUIDs_def)

subsection \<open>The copy and the heap\<close>









subsection \<open>Reading a configuration\<close>







lemma uid_convertible: "typeof v = TNumber \<or> typeof v = TString \<Longrightarrow> convertible h v"
  by (cases v) (simp_all add: convertible_def allocated_def)


subsection \<open>The checks of validateConfiguration\<close>







subsection \<open>validateConfiguration as a whole\<close>

text \<open>
  When the copy has been made, the method returns unless the \<open>catch\<close> clause itself throws;
  what the \<open>try\<close> block threw becomes one more error and an invalid result.
\<close>

lemma validateConfiguration_catches:
  assumes "spread h conf = Inr (copy, g)"
    and "tryBlock g conf \<lparr>isValid = True, errors = [], warnings = [], config = copy\<rparr> = (Some e, r)"
    and "messageThrows g e = None"
  shows "validateConfiguration h conf =
           (Inr (r\<lparr>errors := errors r @ [ValidationException e], isValid := False\<rparr>), g)"
  using assms by (simp add: validateConfiguration_def)






lemmas config_eval =
  validateConfiguration_def spread_def newObject_def tryBlock_def checkBotUid_def checkUid_def
  heapOf_def plainObject_def isValid_fin isBotUser_number DEFAULT_BOT_UID_def ascii_def

section \<open>The claims\<close>

subsection \<open>compareUIDs\<close>

text \<open>
  Claim C1. \<open>compareUIDs\<close> on two strings is equality of the strings, and on two integers
  equality of the integers, with no coercion. On an integer and a string, in either order,
  it is false when the base-10 parse of the string is \<open>NaN\<close> and otherwise the equality of
  the parsed number with the integer. The integer is its own coercion: the code takes a
  number as it is, and re-parsing the decimal numeral of an integer below \<open>2 ^ 53\<close> in
  magnitude gives the integer back. In particular \<open>compareUIDs(12345, "12345")\<close> and
  \<open>compareUIDs(12345, 12345)\<close> are true, \<open>compareUIDs("12345", "12346")\<close> and
  \<open>compareUIDs("abc", 1)\<close> are false.
\<close>

theorem compareUIDs_by_kind:
  "compareUIDs h (JString s) (JString t) = (s = t)
   \<and> compareUIDs h (JNumber (Fin (of_int a))) (JNumber (Fin (of_int b))) = (a = b)
   \<and> compareUIDs h (JNumber (Fin (of_int a))) (JString s)
       = (\<not> isNaN (parseInt s) \<and> Fin (of_int a) = parseInt s)
   \<and> compareUIDs h (JString s) (JNumber (Fin (of_int a)))
       = (\<not> isNaN (parseInt s) \<and> parseInt s = Fin (of_int a))
   \<and> (\<bar>a\<bar> < 2 ^ 53 \<longrightarrow> parseInt (decimal a) = Fin (of_int a))
   \<and> compareUIDs h (JNumber (Fin 12345)) (JString (ascii ''12345''))
   \<and> compareUIDs h (JNumber (Fin 12345)) (JNumber (Fin 12345))
   \<and> \<not> compareUIDs h (JString (ascii ''12345'')) (JString (ascii ''12346''))
   \<and> \<not> compareUIDs h (JString (ascii ''abc'')) (JNumber (Fin 1))"
proof -
  have same_str: "compareUIDs h (JString s) (JString t) = (s = t)"
    by (simp add: compare_same)
  have same_int: "compareUIDs h (JNumber (Fin (of_int a))) (JNumber (Fin (of_int b))) = (a = b)"
    by (simp add: compare_same isNaN_def)
  have mixed1: "compareUIDs h (JNumber (Fin (of_int a))) (JString s)
       = (\<not> isNaN (parseInt s) \<and> Fin (of_int a) = parseInt s)"
    by (simp add: compare_num_str isNaN_def)
  have mixed2: "compareUIDs h (JString s) (JNumber (Fin (of_int a)))
       = (\<not> isNaN (parseInt s) \<and> parseInt s = Fin (of_int a))"
    by (simp add: compare_str_num isNaN_def)
  have reparse: "\<bar>a\<bar> < 2 ^ 53 \<longrightarrow> parseInt (decimal a) = Fin (of_int a)"
    by (simp add: parseInt_decimal roundToDouble_small)
  have e1: "compareUIDs h (JNumber (Fin 12345)) (JString (ascii ''12345''))"
    by (simp add: compare_num_str parse_eval)
  have e2: "compareUIDs h (JNumber (Fin 12345)) (JNumber (Fin 12345))"
    by (simp add: compare_same isNaN_def)
  have e3: "\<not> compareUIDs h (JString (ascii ''12345'')) (JString (ascii ''12346''))"
    by (simp add: compare_same ascii_def)
  have e4: "\<not> compareUIDs h (JString (ascii ''abc'')) (JNumber (Fin 1))"
    by (simp add: compare_str_num parse_eval)
  from same_str same_int mixed1 mixed2 reparse e1 e2 e3 e4 show ?thesis by blast
qed

text \<open>At \<open>42\<close> against \<open>" 42abc"\<close>, and \<open>"42"\<close> against \<open>"042"\<close>.\<close>

theorem compareUIDs_by_kind_witness:
  "compareUIDs noObjects (JNumber (Fin (of_int 42))) (JString (ascii '' 42abc''))
   \<and> \<not> compareUIDs noObjects (JString (ascii ''42'')) (JString (ascii ''042''))
   \<and> \<bar>42 :: int\<bar> < 2 ^ 53 \<and> parseInt (decimal 42) = Fin (of_int 42)"
proof -
  have p: "parseInt (ascii '' 42abc'') = Fin 42" by (simp add: parse_eval)
  have q: "ascii ''42'' \<noteq> ascii ''042''" by (simp add: ascii_def)
  show ?thesis
    using compareUIDs_by_kind [of noObjects "ascii ''42''" "ascii ''042''" 42 42]
      compareUIDs_by_kind [of noObjects "ascii '' 42abc''" "ascii ''042''" 42 42]
    by (simp add: p q isNaN_def)
qed

text \<open>
  Claim C10. \<open>compareUIDs\<close> is not transitive: \<open>"012345"\<close> equals \<open>12345\<close> and \<open>12345\<close>
  equals \<open>"12345"\<close>, each pair across kinds by the parsed number, while \<open>"012345"\<close> and
  \<open>"12345"\<close> are two different strings.
\<close>

theorem compareUIDs_not_transitive:
  "compareUIDs h (JString (ascii ''012345'')) (JNumber (Fin 12345))
   \<and> compareUIDs h (JNumber (Fin 12345)) (JString (ascii ''12345''))
   \<and> \<not> compareUIDs h (JString (ascii ''012345'')) (JString (ascii ''12345''))
   \<and> (\<exists>a b c. compareUIDs h a b \<and> compareUIDs h b c \<and> \<not> compareUIDs h a c)"
proof -
  have a: "compareUIDs h (JString (ascii ''012345'')) (JNumber (Fin 12345))"
    by (simp add: compare_str_num parse_eval)
  have b: "compareUIDs h (JNumber (Fin 12345)) (JString (ascii ''12345''))"
    by (simp add: compare_num_str parse_eval)
  have c: "\<not> compareUIDs h (JString (ascii ''012345'')) (JString (ascii ''12345''))"
    by (simp add: compare_same ascii_def)
  from a b c show ?thesis by blast
qed

theorem compareUIDs_not_transitive_witness:
  "\<exists>a b c. compareUIDs noObjects a b \<and> compareUIDs noObjects b c \<and> \<not> compareUIDs noObjects a c"
  using compareUIDs_not_transitive [of noObjects] by blast

subsection \<open>isValidWebSDKUID\<close>

text \<open>
  Claim C2. For every integer \<open>u\<close>, \<open>isValidWebSDKUID(u)\<close> is true exactly when
  \<open>1 \<le> u \<le> 2 ^ 32 - 1\<close>; it is false at \<open>0\<close> and at \<open>2 ^ 32\<close>.
\<close>

theorem isValidWebSDKUID_integer_range:
  "isValidWebSDKUID (JNumber (Fin (of_int u))) = (1 \<le> u \<and> u \<le> 2 ^ 32 - 1)
   \<and> \<not> isValidWebSDKUID (JNumber (Fin (of_int 0)))
   \<and> \<not> isValidWebSDKUID (JNumber (Fin (of_int (2 ^ 32))))"
  by (simp add: isValid_fin)

theorem isValidWebSDKUID_integer_range_witness:
  "isValidWebSDKUID (JNumber (Fin (of_int 1)))
   \<and> isValidWebSDKUID (JNumber (Fin (of_int 4294967295)))
   \<and> \<not> isValidWebSDKUID (JNumber (Fin (of_int (- 1))))"
  using isValidWebSDKUID_integer_range [of 1] isValidWebSDKUID_integer_range [of 4294967295]
    isValidWebSDKUID_integer_range [of "- 1"]
  by simp

text \<open>
  Claim C3. For every string \<open>s\<close>, \<open>isValidWebSDKUID(s)\<close> is true exactly when \<open>s\<close> has
  positive length and its trimmed form has positive length; the empty string and a string
  of spaces are invalid.
\<close>

theorem isValidWebSDKUID_string_nonblank:
  "isValidWebSDKUID (JString s) = (0 < length s \<and> 0 < length (trim s))
   \<and> \<not> isValidWebSDKUID (JString (ascii ''''))
   \<and> \<not> isValidWebSDKUID (JString (ascii ''   ''))"
  by (simp add: isValid_string trim_def ascii_def isWhiteSpace_def)

theorem isValidWebSDKUID_string_nonblank_witness:
  "isValidWebSDKUID (JString (ascii '' user_1758595626139 ''))
   \<and> trim (ascii '' user_1758595626139 '') = ascii ''user_1758595626139''"
proof -
  have p: "trim (ascii '' user_1758595626139 '') = ascii ''user_1758595626139''"
    by (simp add: trim_def ascii_def isWhiteSpace_def)
  have q: "ascii ''user_1758595626139'' \<noteq> [] \<and> ascii '' user_1758595626139 '' \<noteq> []"
    by (simp add: ascii_def)
  show ?thesis
    using isValidWebSDKUID_string_nonblank [of "ascii '' user_1758595626139 ''"] q
    by (simp add: p)
qed

text \<open>
  Claim C6 says that every input that is neither an integer nor a string is invalid. The
  code tests \<open>typeof uid === "number"\<close> and then only the range, so a number that is not an
  integer and lies in the range is accepted: \<open>1.5\<close> has type number, is no integer, and
  \<open>isValidWebSDKUID(1.5)\<close> is true. (Inputs of any other type, \<open>NaN\<close> and the infinities
  are rejected: \<open>isValid_other\<close>, \<open>isValid_nonfinite\<close>.)
\<close>

theorem isValidWebSDKUID_accepts_fraction:
  "typeof (JNumber (Fin (3 / 2))) = TNumber
   \<and> (\<forall>u :: int. Fin (3 / 2) \<noteq> Fin (of_int u))
   \<and> isValidWebSDKUID (JNumber (Fin (3 / 2)))"
proof -
  have "(3 / 2 :: rat) \<noteq> of_int u" for u :: int
  proof
    assume "(3 / 2 :: rat) = of_int u"
    then have "(of_int 3 :: rat) = of_int (2 * u)" by simp
    then have "(3 :: int) = 2 * u" by (simp only: of_int_eq_iff)
    then show False by presburger
  qed
  then show ?thesis by (simp add: isValid_fin)
qed

subsection \<open>isBotUser\<close>

text \<open>
  Claim C4. \<open>isBotUser(uid)\<close> is true exactly when \<open>uid\<close> is the number 12345, the value of
  \<open>DEFAULT_BOT_UID\<close>, or a string whose base-10 parse is not \<open>NaN\<close> and is 12345; a string
  that does not parse and an input of any other type give false. In particular it is true
  at \<open>12345\<close> and \<open>"12345"\<close>, false at \<open>12346\<close>, \<open>"abc"\<close> and \<open>null\<close>.
\<close>

theorem isBotUser_characterisation:
  "isBotUser uid =
     (uid = JNumber DEFAULT_BOT_UID
      \<or> (\<exists>s. uid = JString s \<and> \<not> isNaN (parseInt s) \<and> parseInt s = DEFAULT_BOT_UID))
   \<and> DEFAULT_BOT_UID = Fin 12345
   \<and> isBotUser (JNumber (Fin 12345))
   \<and> isBotUser (JString (ascii ''12345''))
   \<and> \<not> isBotUser (JNumber (Fin 12346))
   \<and> \<not> isBotUser (JString (ascii ''abc''))
   \<and> \<not> isBotUser JNull"
proof -
  have "isBotUser uid =
     (uid = JNumber DEFAULT_BOT_UID
      \<or> (\<exists>s. uid = JString s \<and> \<not> isNaN (parseInt s) \<and> parseInt s = DEFAULT_BOT_UID))"
  proof (cases uid)
    case (JNumber n)
    then show ?thesis by (simp add: isBotUser_number)
  next
    case (JString s)
    then show ?thesis by (auto simp: isBotUser_string isNaN_def DEFAULT_BOT_UID_def)
  qed (simp_all add: isBotUser_other)
  moreover have "isBotUser (JNumber (Fin 12345)) \<and> \<not> isBotUser (JNumber (Fin 12346))"
    by (simp add: isBotUser_number DEFAULT_BOT_UID_def)
  moreover have "isBotUser (JString (ascii ''12345'')) \<and> \<not> isBotUser (JString (ascii ''abc''))"
    by (simp add: isBotUser_string DEFAULT_BOT_UID_def parse_eval)
  moreover have "\<not> isBotUser JNull" by (simp add: isBotUser_other)
  ultimately show ?thesis by (simp add: DEFAULT_BOT_UID_def)
qed

theorem isBotUser_characterisation_witness:
  "isBotUser (JString (ascii ''  +12345.9'')) \<and> \<not> isBotUser (JBoolean True)
   \<and> \<not> isBotUser (JNumber (Fin (24691 / 2)))"
proof -
  have p: "parseInt (ascii ''  +12345.9'') = Fin 12345" by (simp add: parse_eval)
  have a: "isBotUser (JString (ascii ''  +12345.9''))"
    using isBotUser_characterisation [of "JString (ascii ''  +12345.9'')"]
    by (simp add: p isNaN_def DEFAULT_BOT_UID_def)
  have b: "\<not> isBotUser (JBoolean True)"
    using isBotUser_characterisation [of "JBoolean True"]
    by (simp add: DEFAULT_BOT_UID_def)
  have c: "\<not> isBotUser (JNumber (Fin (24691 / 2)))"
    using isBotUser_characterisation [of "JNumber (Fin (24691 / 2))"]
    by (simp add: DEFAULT_BOT_UID_def)
  from a b c show ?thesis by blast
qed

text \<open>
  Claim C5. On every string \<open>s\<close>, \<open>isBotUser(s)\<close> and \<open>compareUIDs(s, getDefaultBotUID())\<close>
  agree: both read \<open>s\<close> with the same lenient parse, under which \<open>"12345abc"\<close> parses as
  \<open>"12345"\<close> does, so it is the bot and compares equal to 12345.
\<close>

theorem isBotUser_agrees_with_compareUIDs:
  "isBotUser (JString s) = compareUIDs h (JString s) (JNumber getDefaultBotUID)
   \<and> isBotUser (JString (ascii ''12345abc''))
   \<and> compareUIDs h (JString (ascii ''12345abc'')) (JNumber getDefaultBotUID)
   \<and> parseInt (ascii ''12345abc'') = parseInt (ascii ''12345'')"
proof -
  have "isBotUser (JString s) = compareUIDs h (JString s) (JNumber getDefaultBotUID)"
    by (auto simp: isBotUser_string compare_str_num getDefaultBotUID_def DEFAULT_BOT_UID_def)
  moreover have "isBotUser (JString (ascii ''12345abc''))"
    by (simp add: isBotUser_string DEFAULT_BOT_UID_def parse_eval)
  moreover have "compareUIDs h (JString (ascii ''12345abc'')) (JNumber getDefaultBotUID)"
    by (simp add: compare_str_num getDefaultBotUID_def DEFAULT_BOT_UID_def parse_eval)
  moreover have "parseInt (ascii ''12345abc'') = parseInt (ascii ''12345'')"
    by (simp add: parse_eval)
  ultimately show ?thesis by blast
qed

theorem isBotUser_agrees_with_compareUIDs_witness:
  "isBotUser (JString (ascii ''123abc''))
     = compareUIDs noObjects (JString (ascii ''123abc'')) (JNumber getDefaultBotUID)
   \<and> \<not> isBotUser (JString (ascii ''123abc''))"
proof -
  have p: "parseInt (ascii ''123abc'') = Fin 123" by (simp add: parse_eval)
  show ?thesis
    using isBotUser_agrees_with_compareUIDs [of "ascii ''123abc''" noObjects]
    by (simp add: isBotUser_string DEFAULT_BOT_UID_def p)
qed

subsection \<open>validateConfiguration\<close>




text \<open>
  Claim C8 says that no public function lets a failure reach its caller. The three
  predicates do not (\<open>isBotUser_try_returns\<close>, \<open>isValidWebSDKUID_try_returns\<close>,
  \<open>compareUIDs_catches\<close>), and \<open>validateConfiguration\<close> returns on every plain
  configuration (\<open>validateConfiguration_plain\<close>). But the spread of line 130 runs before
  the \<open>try\<close> of line 133, so what a getter of the configuration throws reaches the caller;
  and the \<open>catch\<close> clause reads \<open>error.message\<close> unguarded, so a thrown \<open>null\<close> ends in a
  \<open>TypeError\<close> that reaches the caller.
\<close>

theorem validateConfiguration_propagates:
  "fst (validateConfiguration heapThrowingGetter (JObject 0)) = Inl (UserThrown (JObject 1))
   \<and> fst (validateConfiguration heapThrowsNull (JObject 0)) = Inl (TypeError PropertyOfNullish)"
proof -
  have "fst (validateConfiguration heapThrowingGetter (JObject 0)) = Inl (UserThrown (JObject 1))"
    by (simp add: config_eval heapThrowingGetter_def)
  moreover have
    "fst (validateConfiguration heapThrowsNull (JObject 0)) = Inl (TypeError PropertyOfNullish)"
    by (simp add: config_eval heapThrowsNull_def isValid_other)
  ultimately show ?thesis by simp
qed



end
